theory Spec2Isabelle
  imports Main
begin

section \<open>JavaScript values, strings and exceptions\<close>

text \<open>
  The values a result row of the driver can hold in the columns read here. A property that
  an object does not have reads as \<open>undefined\<close>.
\<close>

datatype js_value = JsUndefined | JsNull | JsBool bool | JsStr string

type_synonym row = "(string \<times> js_value) list"

definition get_prop :: "row \<Rightarrow> string \<Rightarrow> js_value" where
  "get_prop r k = (case map_of r k of None \<Rightarrow> JsUndefined | Some v \<Rightarrow> v)"

text \<open>The string a template literal \<^verbatim>\<open>`${v}`\<close> puts in place of a value.\<close>

fun to_string :: "js_value \<Rightarrow> string" where
  "to_string JsUndefined = ''undefined''"
| "to_string JsNull = ''null''"
| "to_string (JsBool b) = (if b then ''true'' else ''false'')"
| "to_string (JsStr s) = s"

text \<open>
  \<^verbatim>\<open>Array.prototype.join\<close>: the elements' strings with the separator between them;
  an \<open>undefined\<close> or \<open>null\<close> element gives the empty string.
\<close>

fun join_elem :: "js_value \<Rightarrow> string" where
  "join_elem JsUndefined = []"
| "join_elem JsNull = []"
| "join_elem v = to_string v"

fun join :: "string \<Rightarrow> string list \<Rightarrow> string" where
  "join sep [] = []"
| "join sep [x] = x"
| "join sep (x # y # ys) = x @ sep @ join sep (y # ys)"

text \<open>
  \<^verbatim>\<open>s.split(c)\<close> for a separator of one character: the pieces between the
  separators, one piece (the empty string) for the empty string.
\<close>

fun split :: "char \<Rightarrow> string \<Rightarrow> string list" where
  "split c [] = [[]]"
| "split c (x # xs) =
     (if x = c then [] # split c xs
      else (case split c xs of [] \<Rightarrow> [[x]] | p # ps \<Rightarrow> (x # p) # ps))"

text \<open>\<^verbatim>\<open>s.startsWith('"')\<close>.\<close>

fun startsWith :: "string \<Rightarrow> char \<Rightarrow> bool" where
  "startsWith [] c = False"
| "startsWith (x # xs) c = (x = c)"

text \<open>
  What an operation can throw: the framework's \<^verbatim>\<open>Exception(message, status, code)\<close>,
  the \<^verbatim>\<open>TypeError\<close> of a property read or a call on \<open>undefined\<close>, and a failure
  of the driver or the database, which every operation hands on as it is. In the result of
  a method's body \<open>Inl e\<close> says that the body throws \<open>e\<close>; what the caller of the
  method gets then (the exception, or a rejected promise from a method declared
  \<^verbatim>\<open>async\<close>) is the method's completion, defined with the query client.
\<close>

datatype exception =
    Exception string nat string
  | TypeError
  | DriverError string

section \<open>The query client\<close>

datatype mode = Dual | Write | Read

text \<open>A knex instance and a profiler are objects of other libraries, known by their identity.\<close>

datatype knex = Knex nat

datatype profiler = Profiler nat

text \<open>
  The connection: \<^verbatim>\<open>client\<close> is its write handle, \<^verbatim>\<open>readClient\<close> its read
  handle; both are optional properties (\<open>None\<close> is \<open>undefined\<close>), and the non-null
  assertions of the source check nothing at run time.
\<close>

record connection =
  name :: string
  config_client :: string
  client :: "knex option"
  readClient :: "knex option"

record query_client =
  mode :: mode
  connection :: connection
  isTransaction :: bool
  dialect :: string
  profiler :: "profiler option"
  connectionName :: string

text \<open>
  The constructor; \<open>resolve\<close> is knex's \<^verbatim>\<open>resolveClientNameWithAliases\<close>. The
  profiler is attached later, by assignment.
\<close>

definition QueryClient :: "(string \<Rightarrow> string) \<Rightarrow> mode \<Rightarrow> connection \<Rightarrow> query_client" where
  "QueryClient resolve m conn =
     \<lparr>mode = m, connection = conn, isTransaction = False,
      dialect = resolve (config_client conn), profiler = None,
      connectionName = name conn\<rparr>"


definition write_client_unavailable :: exception where
  "write_client_unavailable =
     Exception ''Write client is not available for query client instantiated in read mode''
       500 ''E_RUNTIME_EXCEPTION''"

definition getWriteClient :: "query_client \<Rightarrow> exception + knex option" where
  "getWriteClient c =
     (if mode c = Write \<or> mode c = Dual then Inr (client (connection c))
      else Inl write_client_unavailable)"

text \<open>
  What the client sends through a knex handle, and what comes back. The answers are the
  driver's and the database's: \<open>driver\<close> stands for them. \<open>sent\<close> lists the requests
  made so far, oldest first.
\<close>

datatype request =
    SelectTruncate knex string
  | SelectColumnInfo knex string "string option"
  | BeginTransaction knex

datatype knex_transaction = KnexTransaction nat

datatype column_info = ColumnInfo nat

record driver =
  on_truncate :: "knex \<Rightarrow> string \<Rightarrow> exception + unit"
  on_columnInfo :: "knex \<Rightarrow> string \<Rightarrow> string option \<Rightarrow> exception + column_info"
  on_transaction :: "knex \<Rightarrow> exception + knex_transaction"

text \<open>
  \<^verbatim>\<open>QueryClient.truncate\<close>; the name \<open>truncate\<close> is taken by the record package.
\<close>

definition qc_truncate ::
  "driver \<Rightarrow> query_client \<Rightarrow> string \<Rightarrow> request list \<Rightarrow> (exception + unit) \<times> request list" where
  "qc_truncate d c table sent =
     (case getWriteClient c of
        Inl e \<Rightarrow> (Inl e, sent)
      | Inr None \<Rightarrow> (Inl TypeError, sent)
      | Inr (Some h) \<Rightarrow> (on_truncate d h table, sent @ [SelectTruncate h table]))"

text \<open>
  \<^verbatim>\<open>column ? query.columnInfo(column) : query.columnInfo()\<close>: a column that is
  \<open>undefined\<close> or the empty string asks for all columns.
\<close>

definition columnsInfo ::
  "driver \<Rightarrow> query_client \<Rightarrow> string \<Rightarrow> string option \<Rightarrow> request list
     \<Rightarrow> (exception + column_info) \<times> request list" where
  "columnsInfo d c table column sent =
     (case getWriteClient c of
        Inl e \<Rightarrow> (Inl e, sent)
      | Inr None \<Rightarrow> (Inl TypeError, sent)
      | Inr (Some h) \<Rightarrow>
          (let col = (case column of None \<Rightarrow> None | Some s \<Rightarrow> if s = [] then None else Some s)
           in (on_columnInfo d h table col, sent @ [SelectColumnInfo h table col])))"

text \<open>
  Modelled from the spec: the class \<^verbatim>\<open>TransactionClient\<close> is not among the sources.
  The spec describes it as the transaction-scoped client that wraps the transaction and
  carries a profiler hook; the record keeps what the constructor is given, and the profiler
  is a plain property, \<open>undefined\<close> until assigned.
\<close>

record transaction_client =
  trx_knexClient :: knex_transaction
  trx_dialect :: string
  trx_connectionName :: string
  trx_profiler :: "profiler option"

definition TransactionClient :: "knex_transaction \<Rightarrow> string \<Rightarrow> string \<Rightarrow> transaction_client" where
  "TransactionClient trx dia cname =
     \<lparr>trx_knexClient = trx, trx_dialect = dia, trx_connectionName = cname, trx_profiler = None\<rparr>"

definition transaction ::
  "driver \<Rightarrow> query_client \<Rightarrow> request list \<Rightarrow> (exception + transaction_client) \<times> request list" where
  "transaction d c sent =
     (case getWriteClient c of
        Inl e \<Rightarrow> (Inl e, sent)
      | Inr None \<Rightarrow> (Inl TypeError, sent)
      | Inr (Some h) \<Rightarrow>
          (case on_transaction d h of
             Inl e \<Rightarrow> (Inl e, sent @ [BeginTransaction h])
           | Inr trx \<Rightarrow>
               (Inr ((TransactionClient trx (dialect c) (connectionName c))
                       \<lparr>trx_profiler := profiler c\<rparr>),
                sent @ [BeginTransaction h])))"

text \<open>
  A knex query builder remembers the knex instance whose \<^verbatim>\<open>queryBuilder()\<close> made it.
  Making a builder sends nothing.
\<close>

record knex_builder =
  handle :: knex
  selected_table :: "string option"

definition queryBuilder :: "knex \<Rightarrow> knex_builder" where
  "queryBuilder h = \<lparr>handle = h, selected_table = None\<rparr>"

definition knexQuery :: "query_client \<Rightarrow> exception + knex_builder" where
  "knexQuery c =
     (case client (connection c) of
        None \<Rightarrow> Inl TypeError
      | Some h \<Rightarrow> Inr (queryBuilder h))"

text \<open>
  Modelled from the spec: the classes \<^verbatim>\<open>DatabaseQueryBuilder\<close> and
  \<^verbatim>\<open>InsertQueryBuilder\<close> are not among the sources. The spec says of the factory
  methods that they return "builder objects pre-bound to this client and the correct handle
  (read handle for plain queries, write handle for inserts)", and that \<^verbatim>\<open>from\<close> and
  \<^verbatim>\<open>table\<close> "immediately select a table on the respective builder". A builder
  keeps the knex builder and the client it is constructed with. The handle it is bound to
  is the one its client gives: the read handle (\<open>getReadClient\<close>) for a
  \<^verbatim>\<open>DatabaseQueryBuilder\<close>, the write handle (\<open>getWriteClient\<close>) for an
  \<^verbatim>\<open>InsertQueryBuilder\<close>.
\<close>

record database_query_builder =
  db_knexBuilder :: knex_builder
  db_client :: query_client

record insert_query_builder =
  ins_knexBuilder :: knex_builder
  ins_client :: query_client

definition DatabaseQueryBuilder :: "knex_builder \<Rightarrow> query_client \<Rightarrow> database_query_builder" where
  "DatabaseQueryBuilder kb c = \<lparr>db_knexBuilder = kb, db_client = c\<rparr>"

definition InsertQueryBuilder :: "knex_builder \<Rightarrow> query_client \<Rightarrow> insert_query_builder" where
  "InsertQueryBuilder kb c = \<lparr>ins_knexBuilder = kb, ins_client = c\<rparr>"




definition builder_table :: "insert_query_builder \<Rightarrow> string \<Rightarrow> insert_query_builder" where
  "builder_table b t = b\<lparr>ins_knexBuilder := (ins_knexBuilder b)\<lparr>selected_table := Some t\<rparr>\<rparr>"

definition query :: "query_client \<Rightarrow> exception + database_query_builder" where
  "query c =
     (case knexQuery c of
        Inl e \<Rightarrow> Inl e
      | Inr kb \<Rightarrow> Inr (DatabaseQueryBuilder kb c))"

definition insertQuery :: "query_client \<Rightarrow> exception + insert_query_builder" where
  "insertQuery c =
     (case getWriteClient c of
        Inl e \<Rightarrow> Inl e
      | Inr None \<Rightarrow> Inl TypeError
      | Inr (Some h) \<Rightarrow> Inr (InsertQueryBuilder (queryBuilder h) c))"


definition table :: "query_client \<Rightarrow> string \<Rightarrow> exception + insert_query_builder" where
  "table c t =
     (case insertQuery c of
        Inl e \<Rightarrow> Inl e
      | Inr b \<Rightarrow> Inr (builder_table b t))"

text \<open>
  How the call of a method completes. A method that is not \<^verbatim>\<open>async\<close> throws to its
  caller the exception its body throws. A method declared \<^verbatim>\<open>async\<close> never throws:
  it returns a promise, rejected with the exception its body throws or fulfilled with the
  value its body returns. In the source \<open>getWriteClient\<close>, \<open>insertQuery\<close> and
  \<open>table\<close> are not \<^verbatim>\<open>async\<close>; \<open>truncate\<close>, \<open>columnsInfo\<close> and
  \<open>transaction\<close> are, and the list of requests is the one sent when their promise has
  settled.
\<close>

datatype 'a promise = Rejected exception | Fulfilled 'a

datatype 'a completion = Throws exception | Returns 'a

definition sync_method :: "exception + 'a \<Rightarrow> 'a completion" where
  "sync_method r = (case r of Inl e \<Rightarrow> Throws e | Inr v \<Rightarrow> Returns v)"

definition async_method :: "exception + 'a \<Rightarrow> 'a promise completion" where
  "async_method r = Returns (case r of Inl e \<Rightarrow> Rejected e | Inr v \<Rightarrow> Fulfilled v)"

definition call_getWriteClient :: "query_client \<Rightarrow> knex option completion" where
  "call_getWriteClient c = sync_method (getWriteClient c)"

definition call_insertQuery :: "query_client \<Rightarrow> insert_query_builder completion" where
  "call_insertQuery c = sync_method (insertQuery c)"

definition call_table :: "query_client \<Rightarrow> string \<Rightarrow> insert_query_builder completion" where
  "call_table c t = sync_method (table c t)"

definition call_truncate ::
  "driver \<Rightarrow> query_client \<Rightarrow> string \<Rightarrow> request list
     \<Rightarrow> unit promise completion \<times> request list" where
  "call_truncate d c t sent =
     (case qc_truncate d c t sent of (r, sent') \<Rightarrow> (async_method r, sent'))"

definition call_columnsInfo ::
  "driver \<Rightarrow> query_client \<Rightarrow> string \<Rightarrow> string option \<Rightarrow> request list
     \<Rightarrow> column_info promise completion \<times> request list" where
  "call_columnsInfo d c t column sent =
     (case columnsInfo d c t column sent of (r, sent') \<Rightarrow> (async_method r, sent'))"

definition call_transaction ::
  "driver \<Rightarrow> query_client \<Rightarrow> request list
     \<Rightarrow> transaction_client promise completion \<times> request list" where
  "call_transaction d c sent =
     (case transaction d c sent of (r, sent') \<Rightarrow> (async_method r, sent'))"

section \<open>The Postgres dialect\<close>

text \<open>
  The query a chain of builder calls describes, and the statements that reach the database:
  a built query when it is awaited, a raw statement when \<^verbatim>\<open>rawQuery\<close> runs it.
\<close>

record select_query =
  q_from :: string
  q_select :: "string list"
  q_distinct :: bool
  q_innerJoin :: "(string \<times> string \<times> string) list"
  q_where :: "(string \<times> string) list"
  q_whereIn :: "(string \<times> string list) list"
  q_orderBy :: "(string \<times> string) list"

datatype statement = Query select_query | RawQuery string

record raw_response =
  rows :: "row list"

text \<open>
  The client the dialect is constructed with (a \<^verbatim>\<open>QueryClientContract\<close>) runs the
  statements; what it answers is the database's. \<open>issued\<close> lists the statements run so
  far, oldest first.
\<close>

record db_client =
  run_query :: "select_query \<Rightarrow> exception + row list"
  run_raw :: "string \<Rightarrow> exception + raw_response"

record wipe_config =
  ignoreTables :: "string list option"

record shared_config =
  wipe :: "wipe_config option"

record pg_dialect =
  dialect_client :: db_client
  dialect_config :: shared_config

definition exec_query ::
  "db_client \<Rightarrow> select_query \<Rightarrow> statement list \<Rightarrow> (exception + row list) \<times> statement list" where
  "exec_query cl q issued = (run_query cl q, issued @ [Query q])"

definition rawQuery ::
  "db_client \<Rightarrow> string \<Rightarrow> statement list \<Rightarrow> (exception + raw_response) \<times> statement list" where
  "rawQuery cl sql issued = (run_raw cl sql, issued @ [RawQuery sql])"

definition tables_query :: "string list \<Rightarrow> select_query" where
  "tables_query schemas =
     \<lparr>q_from = ''pg_catalog.pg_tables'',
      q_select = [''schemaname AS schema'', ''tablename AS table''],
      q_distinct = False, q_innerJoin = [], q_where = [],
      q_whereIn = [(''schemaname'', schemas)],
      q_orderBy = [(''tablename'', ''asc'')]\<rparr>"

definition views_query :: "string list \<Rightarrow> select_query" where
  "views_query schemas =
     \<lparr>q_from = ''pg_catalog.pg_views'',
      q_select = [''schemaname AS schema'', ''viewname AS view''],
      q_distinct = False, q_innerJoin = [], q_where = [],
      q_whereIn = [(''schemaname'', schemas)],
      q_orderBy = [(''viewname'', ''asc'')]\<rparr>"

definition types_query :: select_query where
  "types_query =
     \<lparr>q_from = ''pg_type'', q_select = [''pg_type.typname''], q_distinct = True,
      q_innerJoin = [(''pg_enum'', ''pg_enum.enumtypid'', ''pg_type.oid'')],
      q_where = [], q_whereIn = [], q_orderBy = []\<rparr>"

definition domains_query :: select_query where
  "domains_query =
     \<lparr>q_from = ''pg_type'', q_select = [''pg_type.typname''], q_distinct = True,
      q_innerJoin = [(''pg_namespace'', ''pg_namespace.oid'', ''pg_type.typnamespace'')],
      q_where = [(''pg_type.typtype'', ''d'')], q_whereIn = [], q_orderBy = []\<rparr>"

definition quoted_name :: "row \<Rightarrow> string \<Rightarrow> string" where
  \<open>quoted_name r k =
     ''"'' @ to_string (get_prop r ''schema'') @ ''"."'' @ to_string (get_prop r k) @ ''"''\<close>

definition getAllTables ::
  "pg_dialect \<Rightarrow> string list \<Rightarrow> statement list \<Rightarrow> (exception + string list) \<times> statement list" where
  "getAllTables pd schemas issued =
     (case exec_query (dialect_client pd) (tables_query schemas) issued of
        (Inl e, i1) \<Rightarrow> (Inl e, i1)
      | (Inr tables, i1) \<Rightarrow> (Inr (map (\<lambda>r. quoted_name r ''table'') tables), i1))"

definition getAllViews ::
  "pg_dialect \<Rightarrow> string list \<Rightarrow> statement list \<Rightarrow> (exception + string list) \<times> statement list" where
  "getAllViews pd schemas issued =
     (case exec_query (dialect_client pd) (views_query schemas) issued of
        (Inl e, i1) \<Rightarrow> (Inl e, i1)
      | (Inr views, i1) \<Rightarrow> (Inr (map (\<lambda>r. quoted_name r ''view'') views), i1))"

definition getAllTypes ::
  "pg_dialect \<Rightarrow> string list \<Rightarrow> statement list \<Rightarrow> (exception + js_value list) \<times> statement list" where
  "getAllTypes pd schemas issued =
     (case exec_query (dialect_client pd) types_query issued of
        (Inl e, i1) \<Rightarrow> (Inl e, i1)
      | (Inr types, i1) \<Rightarrow> (Inr (map (\<lambda>r. get_prop r ''typname'') types), i1))"

definition getAllDomains ::
  "pg_dialect \<Rightarrow> string list \<Rightarrow> statement list \<Rightarrow> (exception + js_value list) \<times> statement list" where
  "getAllDomains pd schemas issued =
     (case exec_query (dialect_client pd) domains_query issued of
        (Inl e, i1) \<Rightarrow> (Inl e, i1)
      | (Inr domains, i1) \<Rightarrow> (Inr (map (\<lambda>r. get_prop r ''typname'') domains), i1))"

definition quotedTable :: "string \<Rightarrow> string" where
  \<open>quotedTable t = (if startsWith t (CHR ''"'') then t else ''"'' @ t @ ''"'')\<close>

definition pg_truncate ::
  "pg_dialect \<Rightarrow> string \<Rightarrow> bool \<Rightarrow> statement list \<Rightarrow> (exception + raw_response) \<times> statement list" where
  "pg_truncate pd t cascade issued =
     (if cascade
      then rawQuery (dialect_client pd) (''TRUNCATE '' @ quotedTable t @ '' RESTART IDENTITY CASCADE;'') issued
      else rawQuery (dialect_client pd) (''TRUNCATE '' @ quotedTable t @ '';'') issued)"

text \<open>
  \<^verbatim>\<open>table.split('.')[1].replace(/"/g, '')\<close>: the second piece between dots, without
  its double quotes; with no second piece, the call on \<open>undefined\<close> throws.
\<close>

definition extractTableName :: "string \<Rightarrow> exception + string" where
  \<open>extractTableName t =
     (case split (CHR ''.'') t of
        _ # p # _ \<Rightarrow> Inr (filter (\<lambda>ch. ch \<noteq> CHR ''"'') p)
      | _ \<Rightarrow> Inl TypeError)\<close>

text \<open>\<^verbatim>\<open>this.config.wipe?.ignoreTables || ['spatial_ref_sys']\<close>; an array is never falsy.\<close>

definition ignored_tables :: "shared_config \<Rightarrow> string list" where
  "ignored_tables cfg =
     (case wipe cfg of
        None \<Rightarrow> [''spatial_ref_sys'']
      | Some w \<Rightarrow> (case ignoreTables w of None \<Rightarrow> [''spatial_ref_sys''] | Some l \<Rightarrow> l))"

text \<open>The filter of \<open>dropAllTables\<close>; an exception of the callback ends it.\<close>

fun filter_tables :: "string list \<Rightarrow> string list \<Rightarrow> exception + string list" where
  "filter_tables ign [] = Inr []"
| "filter_tables ign (t # ts) =
     (case extractTableName t of
        Inl e \<Rightarrow> Inl e
      | Inr n \<Rightarrow>
          (case filter_tables ign ts of
             Inl e \<Rightarrow> Inl e
           | Inr kept \<Rightarrow> Inr (if n \<in> set ign then kept else t # kept)))"

definition dropAllTables ::
  "pg_dialect \<Rightarrow> string list \<Rightarrow> statement list \<Rightarrow> (exception + unit) \<times> statement list" where
  "dropAllTables pd schemas issued =
     (case getAllTables pd schemas issued of
        (Inl e, i1) \<Rightarrow> (Inl e, i1)
      | (Inr tables, i1) \<Rightarrow>
          (case filter_tables (ignored_tables (dialect_config pd)) tables of
             Inl e \<Rightarrow> (Inl e, i1)
           | Inr kept \<Rightarrow>
               if kept = [] then (Inr (), i1)
               else (case rawQuery (dialect_client pd)
                            (''DROP TABLE '' @ join '', '' kept @ '' CASCADE;'') i1 of
                       (Inl e, i2) \<Rightarrow> (Inl e, i2)
                     | (Inr _, i2) \<Rightarrow> (Inr (), i2))))"

definition dropAllViews ::
  "pg_dialect \<Rightarrow> string list \<Rightarrow> statement list \<Rightarrow> (exception + unit) \<times> statement list" where
  "dropAllViews pd schemas issued =
     (case getAllViews pd schemas issued of
        (Inl e, i1) \<Rightarrow> (Inl e, i1)
      | (Inr views, i1) \<Rightarrow>
          if views = [] then (Inr (), i1)
          else (case rawQuery (dialect_client pd)
                       (''DROP VIEW '' @ join '', '' views @ '' CASCADE;'') i1 of
                  (Inl e, i2) \<Rightarrow> (Inl e, i2)
                | (Inr _, i2) \<Rightarrow> (Inr (), i2)))"

definition dropAllTypes ::
  "pg_dialect \<Rightarrow> string list \<Rightarrow> statement list \<Rightarrow> (exception + unit) \<times> statement list" where
  \<open>dropAllTypes pd schemas issued =
     (case getAllTypes pd schemas issued of
        (Inl e, i1) \<Rightarrow> (Inl e, i1)
      | (Inr types, i1) \<Rightarrow>
          if types = [] then (Inr (), i1)
          else (case rawQuery (dialect_client pd)
                       (''DROP TYPE "'' @ join ''", "'' (map join_elem types) @ ''" CASCADE;'') i1 of
                  (Inl e, i2) \<Rightarrow> (Inl e, i2)
                | (Inr _, i2) \<Rightarrow> (Inr (), i2)))\<close>

definition builtInDomains :: "js_value list" where
  "builtInDomains =
     [JsStr ''cardinal_number'', JsStr ''character_data'', JsStr ''sql_identifier'',
      JsStr ''time_stamp'', JsStr ''yes_or_no'']"

definition dropAllDomains ::
  "pg_dialect \<Rightarrow> string list \<Rightarrow> statement list \<Rightarrow> (exception + unit) \<times> statement list" where
  \<open>dropAllDomains pd schemas issued =
     (case getAllDomains pd schemas issued of
        (Inl e, i1) \<Rightarrow> (Inl e, i1)
      | (Inr domains, i1) \<Rightarrow>
          if domains = [] then (Inr (), i1)
          else (let domainsToDrop = filter (\<lambda>d. d \<notin> set builtInDomains) domains
                in (case rawQuery (dialect_client pd)
                            (''DROP DOMAIN "'' @ join ''", "'' (map join_elem domainsToDrop)
                               @ ''" CASCADE;'') i1 of
                      (Inl e, i2) \<Rightarrow> (Inl e, i2)
                    | (Inr _, i2) \<Rightarrow> (Inr (), i2))))\<close>

text \<open>
  \<^verbatim>\<open>response.rows[0] && response.rows[0].lock_status === true\<close>: with no first row
  the value is \<open>undefined\<close>; a row is an object, which is never falsy.
\<close>

definition lock_status :: "raw_response \<Rightarrow> js_value" where
  "lock_status response =
     (case rows response of
        [] \<Rightarrow> JsUndefined
      | r # _ \<Rightarrow> JsBool (get_prop r ''lock_status'' = JsBool True))"

definition getAdvisoryLock ::
  "pg_dialect \<Rightarrow> string \<Rightarrow> statement list \<Rightarrow> (exception + js_value) \<times> statement list" where
  "getAdvisoryLock pd key issued =
     (case rawQuery (dialect_client pd)
             (''SELECT PG_TRY_ADVISORY_LOCK('' @ [CHR 0x27] @ key @ [CHR 0x27]
                @ '') as lock_status;'') issued of
        (Inl e, i1) \<Rightarrow> (Inl e, i1)
      | (Inr response, i1) \<Rightarrow> (Inr (lock_status response), i1))"

definition releaseAdvisoryLock ::
  "pg_dialect \<Rightarrow> string \<Rightarrow> statement list \<Rightarrow> (exception + js_value) \<times> statement list" where
  "releaseAdvisoryLock pd key issued =
     (case rawQuery (dialect_client pd)
             (''SELECT PG_ADVISORY_UNLOCK('' @ [CHR 0x27] @ key @ [CHR 0x27]
                @ '') as lock_status;'') issued of
        (Inl e, i1) \<Rightarrow> (Inl e, i1)
      | (Inr response, i1) \<Rightarrow> (Inr (lock_status response), i1))"

text \<open>
  A row of the tables query whose schema and table are strings without a dot, the table
  without a double quote: the names for which the second piece between dots of
  \<^verbatim>\<open>"schema"."table"\<close> is the table's name.
\<close>

definition plain_row :: "row \<Rightarrow> bool" where
  \<open>plain_row r =
     (case (get_prop r ''schema'', get_prop r ''table'') of
        (JsStr s, JsStr t) \<Rightarrow>
          CHR ''.'' \<notin> set s \<and> CHR ''.'' \<notin> set t \<and> CHR ''"'' \<notin> set t
      | _ \<Rightarrow> False)\<close>

section \<open>Auxiliary facts\<close>

lemma split_without_separator: "c \<notin> set s \<Longrightarrow> split c s = [s]"
  by (induction s) auto

lemma split_at_separator: "c \<notin> set s \<Longrightarrow> split c (s @ c # rest) = s # split c rest"
  by (induction s) auto

lemma extractTableName_plain:
  assumes "CHR ''.'' \<notin> set s" and "CHR ''.'' \<notin> set t" and \<open>CHR ''"'' \<notin> set t\<close>
  shows \<open>extractTableName (''"'' @ s @ ''"."'' @ t @ ''"'') = Inr t\<close>
proof -
  have a: \<open>CHR ''.'' \<notin> set (''"'' @ s @ ''"'')\<close> using assms by simp
  have b: \<open>CHR ''.'' \<notin> set (''"'' @ t @ ''"'')\<close> using assms by simp
  have \<open>split (CHR ''.'') ((''"'' @ s @ ''"'') @ CHR ''.'' # (''"'' @ t @ ''"''))
          = [''"'' @ s @ ''"'', ''"'' @ t @ ''"'']\<close>
    using split_at_separator [OF a] split_without_separator [OF b] by simp
  then have \<open>extractTableName (''"'' @ s @ ''"."'' @ t @ ''"'')
          = Inr (filter (\<lambda>ch. ch \<noteq> CHR ''"'') (''"'' @ t @ ''"''))\<close>
    by (simp add: extractTableName_def)
  moreover have \<open>filter (\<lambda>ch. ch \<noteq> CHR ''"'') t = t\<close>
    using assms(3) by (auto simp add: filter_id_conv)
  ultimately show ?thesis by simp
qed

text \<open>
  On plain rows the filter of \<open>dropAllTables\<close> keeps the tables whose name is not in the
  ignore-list, and \<open>dropAllTables\<close> issues no statement when none is kept, one
  \<^verbatim>\<open>DROP TABLE\<close> for all of them otherwise.
\<close>

lemma filter_tables_plain:
  "\<forall>r \<in> set rws. plain_row r \<Longrightarrow>
   filter_tables ign (map (\<lambda>r. quoted_name r ''table'') rws)
     = Inr (map (\<lambda>r. quoted_name r ''table'')
              (filter (\<lambda>r. get_prop r ''table'' \<notin> JsStr ` set ign) rws))"
proof (induction rws)
  case Nil
  then show ?case by simp
next
  case (Cons r rws)
  then obtain s t where st: "get_prop r ''schema'' = JsStr s" "get_prop r ''table'' = JsStr t"
    "CHR ''.'' \<notin> set s" "CHR ''.'' \<notin> set t" \<open>CHR ''"'' \<notin> set t\<close>
    by (auto simp add: plain_row_def split: js_value.splits)
  have \<open>extractTableName (quoted_name r ''table'') = Inr t\<close>
    using extractTableName_plain [OF st(3) st(4) st(5)] st(1,2) by (simp add: quoted_name_def)
  with Cons st show ?case by (auto simp add: image_iff)
qed

lemma dropAllTables_plain:
  assumes "run_query (dialect_client pd) (tables_query schemas) = Inr rws"
    and "\<forall>r \<in> set rws. plain_row r"
  shows "snd (dropAllTables pd schemas issued) =
     issued @ Query (tables_query schemas) #
       (case filter (\<lambda>r. get_prop r ''table'' \<notin> JsStr ` set (ignored_tables (dialect_config pd)))
               rws of
          [] \<Rightarrow> []
        | r # kept \<Rightarrow>
            [RawQuery (''DROP TABLE '' @ join '', '' (map (\<lambda>r. quoted_name r ''table'') (r # kept))
                         @ '' CASCADE;'')])"
  using assms(1) filter_tables_plain [OF assms(2), of "ignored_tables (dialect_config pd)"]
  by (simp add: dropAllTables_def getAllTables_def exec_query_def rawQuery_def
      split: sum.splits list.splits)

lemma not_built_in_iff:
  "d \<notin> set builtInDomains \<longleftrightarrow>
     d \<notin> {JsStr ''cardinal_number'', JsStr ''character_data'', JsStr ''sql_identifier'',
            JsStr ''time_stamp'', JsStr ''yes_or_no''}"
  by (simp add: builtInDomains_def)

section \<open>Theorems\<close>

text \<open>
  C1. A client in mode \<open>read\<close> gets from \<open>getWriteClient\<close> the runtime exception with
  its fixed message, status and code \<^verbatim>\<open>E_RUNTIME_EXCEPTION\<close>, and no handle; a client
  in mode \<open>write\<close> or \<open>dual\<close> gets the connection's write handle. The function takes
  neither the driver nor the list of requests: it sends nothing.
\<close>

theorem getWriteClient_by_mode:
  "(mode c = Read \<longrightarrow>
      getWriteClient c =
        Inl (Exception ''Write client is not available for query client instantiated in read mode''
               500 ''E_RUNTIME_EXCEPTION''))
   \<and> (mode c = Write \<or> mode c = Dual \<longrightarrow> getWriteClient c = Inr (client (connection c)))"
  by (simp add: getWriteClient_def write_client_unavailable_def)

theorem getWriteClient_by_mode_witness:
  "getWriteClient
     (QueryClient (\<lambda>s. s) Read
        \<lparr>name = ''primary'', config_client = ''pg'', client = Some (Knex 1),
         readClient = Some (Knex 2)\<rparr>)
     = Inl (Exception ''Write client is not available for query client instantiated in read mode''
              500 ''E_RUNTIME_EXCEPTION'')
   \<and> getWriteClient
     (QueryClient (\<lambda>s. s) Dual
        \<lparr>name = ''primary'', config_client = ''pg'', client = Some (Knex 1),
         readClient = Some (Knex 2)\<rparr>)
     = Inr (Some (Knex 1))"
  using
    getWriteClient_by_mode [of "QueryClient (\<lambda>s. s) Read
        \<lparr>name = ''primary'', config_client = ''pg'', client = Some (Knex 1),
         readClient = Some (Knex 2)\<rparr>"]
    getWriteClient_by_mode [of "QueryClient (\<lambda>s. s) Dual
        \<lparr>name = ''primary'', config_client = ''pg'', client = Some (Knex 1),
         readClient = Some (Knex 2)\<rparr>"]
  by (simp add: QueryClient_def)

text \<open>
  C2. When every domain the catalog returns is a built-in one, \<open>dropAllDomains\<close> still
  issues a statement: it tests the list for emptiness before it removes the built-in names,
  not after. With \<^verbatim>\<open>cardinal_number\<close> alone the statement drops the domain of
  the empty name.
\<close>

theorem dropAllDomains_only_built_in:
  \<open>dropAllDomains
      \<lparr>dialect_client =
         \<lparr>run_query = (\<lambda>q. Inr [[(''typname'', JsStr ''cardinal_number'')]]),
          run_raw = (\<lambda>s. Inr \<lparr>rows = []\<rparr>)\<rparr>,
       dialect_config = \<lparr>wipe = None\<rparr>\<rparr> [''public''] []
    = (Inr (), [Query domains_query, RawQuery ''DROP DOMAIN "" CASCADE;''])\<close>
  by (simp add: dropAllDomains_def getAllDomains_def exec_query_def rawQuery_def
      builtInDomains_def get_prop_def)



text \<open>
  C4. \<open>dropAllTables\<close> takes as a table's unqualified name the second piece between dots
  of \<^verbatim>\<open>"schema"."table"\<close>. For a schema whose name has a dot that piece is not the
  table's name: the table \<^verbatim>\<open>spatial_ref_sys\<close> of the schema \<^verbatim>\<open>my.schema\<close>,
  which the default ignore-list names, is in the statement issued.
\<close>

theorem dropAllTables_dotted_schema:
  \<open>dropAllTables
      \<lparr>dialect_client =
         \<lparr>run_query = (\<lambda>q. Inr [[(''schema'', JsStr ''my.schema''),
                                   (''table'', JsStr ''spatial_ref_sys'')]]),
          run_raw = (\<lambda>s. Inr \<lparr>rows = []\<rparr>)\<rparr>,
       dialect_config = \<lparr>wipe = None\<rparr>\<rparr> [''my.schema''] []
    = (Inr (), [Query (tables_query [''my.schema'']),
                RawQuery ''DROP TABLE "my.schema"."spatial_ref_sys" CASCADE;''])\<close>
  by (simp add: dropAllTables_def getAllTables_def exec_query_def rawQuery_def
      ignored_tables_def extractTableName_def quoted_name_def get_prop_def)

text \<open>
  C5. When the catalog query returns rows, \<open>dropAllDomains\<close> issues, after that query,
  one statement \<^verbatim>\<open>DROP DOMAIN "..." CASCADE;\<close> whose names are the catalog's names
  in their order without the five built-in names, joined by \<^verbatim>\<open>", "\<close>; none of the
  five is among the names it puts in. The catalog result \<^verbatim>\<open>cardinal_number\<close>,
  \<^verbatim>\<open>custom_status\<close> gives \<^verbatim>\<open>DROP DOMAIN "custom_status" CASCADE;\<close>,
  the instance stated after the theorem.
\<close>

theorem dropAllDomains_statement:
  assumes "run_query (dialect_client pd) domains_query = Inr rws" and "rws \<noteq> []"
  shows \<open>\<exists>kept.
     dropAllDomains pd schemas issued =
       (case run_raw (dialect_client pd)
               (''DROP DOMAIN "'' @ join ''", "'' (map join_elem kept) @ ''" CASCADE;'') of
          Inl e \<Rightarrow> Inl e | Inr _ \<Rightarrow> Inr (),
        issued @ [Query domains_query,
          RawQuery (''DROP DOMAIN "'' @ join ''", "'' (map join_elem kept) @ ''" CASCADE;'')])
     \<and> kept = filter (\<lambda>d. d \<notin> {JsStr ''cardinal_number'', JsStr ''character_data'',
                 JsStr ''sql_identifier'', JsStr ''time_stamp'', JsStr ''yes_or_no''})
               (map (\<lambda>r. get_prop r ''typname'') rws)
     \<and> JsStr ''cardinal_number'' \<notin> set kept \<and> JsStr ''character_data'' \<notin> set kept
     \<and> JsStr ''sql_identifier'' \<notin> set kept \<and> JsStr ''time_stamp'' \<notin> set kept
     \<and> JsStr ''yes_or_no'' \<notin> set kept\<close>
  using assms
  by (simp add: dropAllDomains_def getAllDomains_def exec_query_def rawQuery_def
      not_built_in_iff Let_def split: sum.splits)

theorem dropAllDomains_statement_witness:
  \<open>dropAllDomains
      \<lparr>dialect_client =
         \<lparr>run_query = (\<lambda>q. Inr [[(''typname'', JsStr ''cardinal_number'')],
                                  [(''typname'', JsStr ''custom_status'')]]),
          run_raw = (\<lambda>s. Inr \<lparr>rows = []\<rparr>)\<rparr>,
       dialect_config = \<lparr>wipe = None\<rparr>\<rparr> [''public''] []
    = (Inr (), [Query domains_query, RawQuery ''DROP DOMAIN "custom_status" CASCADE;''])\<close>
  using dropAllDomains_statement [of
      "\<lparr>dialect_client =
         \<lparr>run_query = (\<lambda>q. Inr [[(''typname'', JsStr ''cardinal_number'')],
                                  [(''typname'', JsStr ''custom_status'')]]),
          run_raw = (\<lambda>s. Inr \<lparr>rows = []\<rparr>)\<rparr>,
       dialect_config = \<lparr>wipe = None\<rparr>\<rparr>"
      "[[(''typname'', JsStr ''cardinal_number'')],
                                  [(''typname'', JsStr ''custom_status'')]]"
      "[''public'']" "[]"]
  by (simp add: get_prop_def)

text \<open>
  C6. The dialect's \<open>truncate\<close> runs one statement: \<^verbatim>\<open>TRUNCATE\<close>, the table name
  (as it is when it starts with a double quote, between double quotes otherwise), then
  \<^verbatim>\<open> RESTART IDENTITY CASCADE;\<close> with \<open>cascade\<close> and \<^verbatim>\<open>;\<close> alone without.
\<close>

theorem pg_truncate_statement:
  \<open>pg_truncate pd t cascade issued =
     (run_raw (dialect_client pd)
        (''TRUNCATE '' @ (if startsWith t (CHR ''"'') then t else ''"'' @ t @ ''"'')
           @ (if cascade then '' RESTART IDENTITY CASCADE;'' else '';'')),
      issued @ [RawQuery
        (''TRUNCATE '' @ (if startsWith t (CHR ''"'') then t else ''"'' @ t @ ''"'')
           @ (if cascade then '' RESTART IDENTITY CASCADE;'' else '';''))])\<close>
  by (simp add: pg_truncate_def rawQuery_def quotedTable_def)

text \<open>
  C7. \<open>getAdvisoryLock\<close> runs one statement, the non-blocking
  \<^verbatim>\<open>SELECT PG_TRY_ADVISORY_LOCK('<key>') as lock_status;\<close>. Its result is \<open>true\<close>
  exactly when the database answers with a first row whose \<open>lock_status\<close> is \<open>true\<close>
  (the lock was acquired); when the row says \<open>false\<close> (the lock is held elsewhere) the
  result is \<open>false\<close>, not an exception.
\<close>

theorem getAdvisoryLock_result:
  "snd (getAdvisoryLock pd key issued) =
     issued @ [RawQuery (''SELECT PG_TRY_ADVISORY_LOCK('' @ [CHR 0x27] @ key @ [CHR 0x27]
                @ '') as lock_status;'')]
   \<and> (fst (getAdvisoryLock pd key issued) = Inr (JsBool True) \<longleftrightarrow>
        (\<exists>response r rs.
           run_raw (dialect_client pd)
             (''SELECT PG_TRY_ADVISORY_LOCK('' @ [CHR 0x27] @ key @ [CHR 0x27]
                @ '') as lock_status;'') = Inr response
           \<and> rows response = r # rs \<and> get_prop r ''lock_status'' = JsBool True))
   \<and> (\<forall>response r rs.
        run_raw (dialect_client pd)
          (''SELECT PG_TRY_ADVISORY_LOCK('' @ [CHR 0x27] @ key @ [CHR 0x27]
                @ '') as lock_status;'') = Inr response
        \<and> rows response = r # rs \<and> get_prop r ''lock_status'' = JsBool False
        \<longrightarrow> fst (getAdvisoryLock pd key issued) = Inr (JsBool False))"
  by (auto simp add: getAdvisoryLock_def rawQuery_def lock_status_def
      split: sum.splits list.splits)

theorem getAdvisoryLock_result_witness:
  "getAdvisoryLock
      \<lparr>dialect_client =
         \<lparr>run_query = (\<lambda>q. Inr []),
          run_raw = (\<lambda>s. Inr \<lparr>rows = [[(''lock_status'', JsBool False)]]\<rparr>)\<rparr>,
       dialect_config = \<lparr>wipe = None\<rparr>\<rparr> ''migrations'' []
    = (Inr (JsBool False),
       [RawQuery ''SELECT PG_TRY_ADVISORY_LOCK('migrations') as lock_status;''])"
  using getAdvisoryLock_result [of
      "\<lparr>dialect_client =
         \<lparr>run_query = (\<lambda>q. Inr []),
          run_raw = (\<lambda>s. Inr \<lparr>rows = [[(''lock_status'', JsBool False)]]\<rparr>)\<rparr>,
       dialect_config = \<lparr>wipe = None\<rparr>\<rparr>"
      "''migrations''" "[]"]
  by (simp add: get_prop_def prod_eq_iff)

text \<open>
  C8. The transaction client that \<open>transaction()\<close> returns has the profiler of the client
  it comes from: the same reference (or \<open>undefined\<close> when the client has none). It
  returns one whenever the write handle is there and knex begins the transaction.
\<close>

theorem transaction_profiler:
  "(\<forall>t sent'. transaction d c sent = (Inr t, sent') \<longrightarrow> trx_profiler t = profiler c)
   \<and> (getWriteClient c = Inr (Some h) \<and> on_transaction d h = Inr trx \<longrightarrow>
        transaction d c sent =
          (Inr ((TransactionClient trx (dialect c) (connectionName c))\<lparr>trx_profiler := profiler c\<rparr>),
           sent @ [BeginTransaction h]))"
  by (auto simp add: transaction_def split: sum.splits option.splits)

theorem transaction_profiler_witness:
  "transaction
      \<lparr>on_truncate = (\<lambda>h t. Inr ()), on_columnInfo = (\<lambda>h t col. Inr (ColumnInfo 0)),
        on_transaction = (\<lambda>h. Inr (KnexTransaction 1))\<rparr>
      ((QueryClient (\<lambda>s. s) Write
         \<lparr>name = ''primary'', config_client = ''pg'', client = Some (Knex 1),
          readClient = Some (Knex 2)\<rparr>)\<lparr>profiler := Some (Profiler 7)\<rparr>) []
    = (Inr \<lparr>trx_knexClient = KnexTransaction 1, trx_dialect = ''pg'',
             trx_connectionName = ''primary'', trx_profiler = Some (Profiler 7)\<rparr>,
       [BeginTransaction (Knex 1)])"
  using transaction_profiler [of
      "\<lparr>on_truncate = (\<lambda>h t. Inr ()), on_columnInfo = (\<lambda>h t col. Inr (ColumnInfo 0)),
        on_transaction = (\<lambda>h. Inr (KnexTransaction 1))\<rparr>"
      "((QueryClient (\<lambda>s. s) Write
         \<lparr>name = ''primary'', config_client = ''pg'', client = Some (Knex 1),
          readClient = Some (Knex 2)\<rparr>)\<lparr>profiler := Some (Profiler 7)\<rparr>)"
      "[]" "Knex 1" "KnexTransaction 1"]
  by (simp add: QueryClient_def getWriteClient_def TransactionClient_def)

text \<open>
  C9, as the claim states it: all five operations throw. On a client in mode \<open>read\<close> the
  call of \<open>truncate\<close> does not throw: it returns a promise, rejected with the exception
  of \<open>getWriteClient\<close>; so do \<open>columnsInfo\<close> and \<open>transaction\<close>.
\<close>

theorem read_mode_async_throw_counterexample:
  "call_truncate
      \<lparr>on_truncate = (\<lambda>h t. Inr ()), on_columnInfo = (\<lambda>h t col. Inr (ColumnInfo 0)),
        on_transaction = (\<lambda>h. Inr (KnexTransaction 1))\<rparr>
      (QueryClient (\<lambda>s. s) Read
         \<lparr>name = ''primary'', config_client = ''pg'', client = Some (Knex 1),
          readClient = Some (Knex 2)\<rparr>) ''users'' []
    = (Returns (Rejected (Exception ''Write client is not available for query client instantiated in read mode''
                 500 ''E_RUNTIME_EXCEPTION'')), [])
   \<and> fst (call_truncate
      \<lparr>on_truncate = (\<lambda>h t. Inr ()), on_columnInfo = (\<lambda>h t col. Inr (ColumnInfo 0)),
        on_transaction = (\<lambda>h. Inr (KnexTransaction 1))\<rparr>
      (QueryClient (\<lambda>s. s) Read
         \<lparr>name = ''primary'', config_client = ''pg'', client = Some (Knex 1),
          readClient = Some (Knex 2)\<rparr>) ''users'' [])
    \<noteq> Throws (Exception ''Write client is not available for query client instantiated in read mode''
                 500 ''E_RUNTIME_EXCEPTION'')
   \<and> fst (call_columnsInfo
      \<lparr>on_truncate = (\<lambda>h t. Inr ()), on_columnInfo = (\<lambda>h t col. Inr (ColumnInfo 0)),
        on_transaction = (\<lambda>h. Inr (KnexTransaction 1))\<rparr>
      (QueryClient (\<lambda>s. s) Read
         \<lparr>name = ''primary'', config_client = ''pg'', client = Some (Knex 1),
          readClient = Some (Knex 2)\<rparr>) ''users'' None [])
    \<noteq> Throws (Exception ''Write client is not available for query client instantiated in read mode''
                 500 ''E_RUNTIME_EXCEPTION'')
   \<and> fst (call_transaction
      \<lparr>on_truncate = (\<lambda>h t. Inr ()), on_columnInfo = (\<lambda>h t col. Inr (ColumnInfo 0)),
        on_transaction = (\<lambda>h. Inr (KnexTransaction 1))\<rparr>
      (QueryClient (\<lambda>s. s) Read
         \<lparr>name = ''primary'', config_client = ''pg'', client = Some (Knex 1),
          readClient = Some (Knex 2)\<rparr>) [])
    \<noteq> Throws (Exception ''Write client is not available for query client instantiated in read mode''
                 500 ''E_RUNTIME_EXCEPTION'')"
  by (simp add: call_truncate_def call_columnsInfo_def call_transaction_def qc_truncate_def
      columnsInfo_def transaction_def getWriteClient_def QueryClient_def async_method_def
      write_client_unavailable_def)

text \<open>
  C9, amended. On a client in mode \<open>read\<close>, \<open>insertQuery\<close> and \<open>table\<close> throw the
  exception of \<open>getWriteClient\<close>, and \<open>truncate\<close>, \<open>columnsInfo\<close> and
  \<open>transaction\<close>, which are \<^verbatim>\<open>async\<close>, return a promise rejected with that same
  exception; with all five the list of requests sent is the one they started with: nothing
  reaches the database.
\<close>

theorem read_mode_operations_completion:
  "mode c = Read \<Longrightarrow>
     call_getWriteClient c = Throws write_client_unavailable
   \<and> call_insertQuery c = Throws write_client_unavailable
   \<and> call_table c t = Throws write_client_unavailable
   \<and> call_truncate d c t sent = (Returns (Rejected write_client_unavailable), sent)
   \<and> call_columnsInfo d c t column sent = (Returns (Rejected write_client_unavailable), sent)
   \<and> call_transaction d c sent = (Returns (Rejected write_client_unavailable), sent)"
  by (simp add: call_getWriteClient_def call_insertQuery_def call_table_def call_truncate_def
      call_columnsInfo_def call_transaction_def getWriteClient_def qc_truncate_def
      columnsInfo_def insertQuery_def table_def transaction_def sync_method_def
      async_method_def)

theorem read_mode_operations_completion_witness:
  "call_insertQuery (QueryClient (\<lambda>s. s) Read
         \<lparr>name = ''primary'', config_client = ''pg'', client = Some (Knex 1),
          readClient = Some (Knex 2)\<rparr>)
    = Throws (Exception ''Write client is not available for query client instantiated in read mode''
                 500 ''E_RUNTIME_EXCEPTION'')
   \<and> call_table (QueryClient (\<lambda>s. s) Read
         \<lparr>name = ''primary'', config_client = ''pg'', client = Some (Knex 1),
          readClient = Some (Knex 2)\<rparr>) ''users''
    = Throws (Exception ''Write client is not available for query client instantiated in read mode''
                 500 ''E_RUNTIME_EXCEPTION'')
   \<and> call_columnsInfo
      \<lparr>on_truncate = (\<lambda>h t. Inr ()), on_columnInfo = (\<lambda>h t col. Inr (ColumnInfo 0)),
        on_transaction = (\<lambda>h. Inr (KnexTransaction 1))\<rparr>
      (QueryClient (\<lambda>s. s) Read
         \<lparr>name = ''primary'', config_client = ''pg'', client = Some (Knex 1),
          readClient = Some (Knex 2)\<rparr>) ''users'' None []
    = (Returns (Rejected (Exception ''Write client is not available for query client instantiated in read mode''
                 500 ''E_RUNTIME_EXCEPTION'')), [])
   \<and> call_transaction
      \<lparr>on_truncate = (\<lambda>h t. Inr ()), on_columnInfo = (\<lambda>h t col. Inr (ColumnInfo 0)),
        on_transaction = (\<lambda>h. Inr (KnexTransaction 1))\<rparr>
      (QueryClient (\<lambda>s. s) Read
         \<lparr>name = ''primary'', config_client = ''pg'', client = Some (Knex 1),
          readClient = Some (Knex 2)\<rparr>) []
    = (Returns (Rejected (Exception ''Write client is not available for query client instantiated in read mode''
                 500 ''E_RUNTIME_EXCEPTION'')), [])"
  using read_mode_operations_completion [of
      "QueryClient (\<lambda>s. s) Read
         \<lparr>name = ''primary'', config_client = ''pg'', client = Some (Knex 1),
          readClient = Some (Knex 2)\<rparr>"
      "''users''"
      "\<lparr>on_truncate = (\<lambda>h t. Inr ()), on_columnInfo = (\<lambda>h t col. Inr (ColumnInfo 0)),
        on_transaction = (\<lambda>h. Inr (KnexTransaction 1))\<rparr>"
      "[]" "None"]
  by (simp add: QueryClient_def write_client_unavailable_def)

text \<open>
  C10. \<open>getAllTypes\<close> and \<open>getAllDomains\<close> do not use their list of schemas: two lists
  give the same result and the same query, and the query has no \<^verbatim>\<open>whereIn\<close>.
\<close>

theorem types_and_domains_ignore_schemas:
  "getAllTypes pd schemas1 issued = getAllTypes pd schemas2 issued
   \<and> getAllDomains pd schemas1 issued = getAllDomains pd schemas2 issued
   \<and> snd (getAllTypes pd schemas1 issued) = issued @ [Query types_query]
   \<and> snd (getAllDomains pd schemas1 issued) = issued @ [Query domains_query]
   \<and> q_whereIn types_query = [] \<and> q_whereIn domains_query = []"
  by (simp add: getAllTypes_def getAllDomains_def exec_query_def types_query_def
      domains_query_def split: sum.splits)

end
